theory Spec2Isabelle
  imports Main "HOL-Library.Word" "HOL-Library.Sublist"
begin

section \<open>JavaScript strings\<close>

text \<open>
  A JavaScript string is a sequence of UTF-16 code units: \<open>length\<close>, \<open>substr\<close> and
  \<open>lastIndexOf\<close> count code units, while \<open>Buffer.byteLength\<close> counts the bytes of the
  UTF-8 encoding. Both views occur in \<open>MessageHandler.add\<close>, so the model keeps the code
  units.
\<close>

type_synonym code_unit = "16 word"
type_synonym jsstring = "code_unit list"

definition SP :: code_unit where "SP = 0x20"
definition LF :: code_unit where "LF = 0x0A"
definition CR :: code_unit where "CR = 0x0D"
definition ELLIPSIS :: code_unit where "ELLIPSIS = 0x2026"

text \<open>The class \<open>\s\<close> of a regular expression; \<open>trim()\<close> strips the same code units.\<close>

definition is_ws :: "code_unit \<Rightarrow> bool" where
  "is_ws c = (c \<in> set [0x09, 0x0A, 0x0B, 0x0C, 0x0D, 0x20, 0xA0, 0x1680,
                        0x2028, 0x2029, 0x202F, 0x205F, 0x3000, 0xFEFF]
              \<or> (0x2000 \<le> c \<and> c \<le> 0x200A))"

definition trim :: "jsstring \<Rightarrow> jsstring" where
  "trim s = rev (dropWhile is_ws (rev (dropWhile is_ws s)))"

text \<open>\<open>s.replace(/\r\n/g, '\n')\<close>\<close>

fun crlf_to_lf :: "jsstring \<Rightarrow> jsstring" where
  "crlf_to_lf [] = []"
| "crlf_to_lf [c] = [c]"
| "crlf_to_lf (c # d # cs) =
     (if c = CR \<and> d = LF then LF # crlf_to_lf cs else c # crlf_to_lf (d # cs))"

text \<open>\<open>s.replace(/\s+/g, ' ')\<close>: every maximal run of white space becomes one space.\<close>

function collapse_ws :: "jsstring \<Rightarrow> jsstring" where
  "collapse_ws [] = []"
| "collapse_ws (c # cs) =
     (if is_ws c then SP # collapse_ws (dropWhile is_ws cs) else c # collapse_ws cs)"
  by pat_completeness auto
termination
  by (relation "measure length") (auto simp: length_dropWhile_le less_Suc_eq_le)

text \<open>\<open>s.substr(0, n)\<close>: a negative length gives the empty string.\<close>

definition substr0 :: "jsstring \<Rightarrow> int \<Rightarrow> jsstring" where
  "substr0 s n = take (nat n) s"

text \<open>\<open>s.lastIndexOf(c)\<close> for a single code unit: the last index, or -1.\<close>

definition lastIndexOf :: "jsstring \<Rightarrow> code_unit \<Rightarrow> int" where
  "lastIndexOf s c =
     (if c \<in> set s then int (length s) - 1 - int (length (takeWhile (\<lambda>d. d \<noteq> c) (rev s)))
      else - 1)"

text \<open>
  \<open>Buffer.byteLength(s)\<close>: the length of the UTF-8 encoding. A surrogate pair encodes one
  code point in four bytes; a lone surrogate is encoded as U+FFFD, three bytes.
\<close>

definition unit_bytes :: "code_unit \<Rightarrow> nat" where
  "unit_bytes c = (if c < 0x80 then 1 else if c < 0x800 then 2 else 3)"

definition is_high :: "code_unit \<Rightarrow> bool" where
  "is_high c = (0xD800 \<le> c \<and> c \<le> 0xDBFF)"

definition is_low :: "code_unit \<Rightarrow> bool" where
  "is_low c = (0xDC00 \<le> c \<and> c \<le> 0xDFFF)"

fun byteLength :: "jsstring \<Rightarrow> nat" where
  "byteLength [] = 0"
| "byteLength [c] = unit_bytes c"
| "byteLength (c # d # cs) =
     (if is_high c \<and> is_low d then 4 + byteLength cs
      else unit_bytes c + byteLength (d # cs))"


section \<open>Derived fields of a stored message (\<open>MessageHandler.add\<close>)\<close>

subsection \<open>\<open>text\<close> and \<open>intro\<close>\<close>

text \<open>
  Lines 184-200 of \<open>lib/message-handler.js\<close>. \<open>consts.MAX_PLAINTEXT_CONTENT\<close> is a
  parameter: the module \<open>consts\<close> is not part of the sources at hand.
\<close>

definition stored_text :: "nat \<Rightarrow> jsstring \<Rightarrow> jsstring" where
  "stored_text MAX_PLAINTEXT_CONTENT text =
     (let t = trim (crlf_to_lf text)
      in if length t \<le> MAX_PLAINTEXT_CONTENT then t
         else substr0 t (int MAX_PLAINTEXT_CONTENT))"

definition collapsed :: "jsstring \<Rightarrow> jsstring" where
  "collapsed t = trim (collapse_ws t)"

definition intro_of :: "jsstring \<Rightarrow> jsstring" where
  "intro_of t =
     (let intro = collapsed t
      in if length intro > 128 then
           (let intro1 = substr0 intro 128;
                lastSp = lastIndexOf intro1 SP;
                intro2 = (if lastSp > 0 then substr0 intro1 lastSp else intro1)
            in intro2 @ [ELLIPSIS])
         else intro)"

text \<open>
  The two fields as \<open>add\<close> sets them: both stay unset (\<open>None\<close>) when \<open>maildata.text\<close> is
  empty.
\<close>

definition text_fields :: "nat \<Rightarrow> jsstring \<Rightarrow> (jsstring \<times> jsstring) option" where
  "text_fields MAX_PLAINTEXT_CONTENT text =
     (if text = [] then None
      else (let t = stored_text MAX_PLAINTEXT_CONTENT text in Some (t, intro_of t)))"

subsection \<open>\<open>html\<close>\<close>

text \<open>
  Lines 202-220. The callback of \<open>map\<close> reads and writes the running counter
  \<open>htmlSize\<close>; the model threads it through the recursion. \<open>consts.MAX_HTML_CONTENT\<close> is
  a parameter.
\<close>

fun html_map :: "nat \<Rightarrow> nat \<Rightarrow> jsstring list \<Rightarrow> jsstring list" where
  "html_map MAX_HTML_CONTENT htmlSize [] = []"
| "html_map MAX_HTML_CONTENT htmlSize (html # rest) =
     (if htmlSize \<ge> MAX_HTML_CONTENT \<or> html = [] then
        [] # html_map MAX_HTML_CONTENT htmlSize rest
      else if htmlSize + byteLength html \<le> MAX_HTML_CONTENT then
        html # html_map MAX_HTML_CONTENT (htmlSize + byteLength html) rest
      else
        (let html' = substr0 html (int htmlSize + int (byteLength html) - int MAX_HTML_CONTENT)
         in html' # html_map MAX_HTML_CONTENT (htmlSize + byteLength html') rest))"

definition html_field :: "nat \<Rightarrow> jsstring list \<Rightarrow> jsstring list option" where
  "html_field MAX_HTML_CONTENT html =
     (if html = [] then None
      else Some (filter (\<lambda>h. h \<noteq> []) (html_map MAX_HTML_CONTENT 0 html)))"

definition html_bytes :: "jsstring list option \<Rightarrow> nat" where
  "html_bytes h = (case h of None \<Rightarrow> 0 | Some hs \<Rightarrow> sum_list (map byteLength hs))"


section \<open>Byte strings\<close>

text \<open>
  Buffers and the strings of the wire protocol are byte sequences; \<open>string\<close> (a list of
  8-bit characters) holds them. \<open>split_on\<close> is \<open>String.prototype.split\<close> with a
  one-character separator (the empty string gives one empty field), \<open>join\<close> is
  \<open>Array.prototype.join\<close>.
\<close>

fun split_on :: "'a \<Rightarrow> 'a list \<Rightarrow> 'a list list" where
  "split_on sep [] = [[]]"
| "split_on sep (x # xs) =
     (if x = sep then [] # split_on sep xs
      else (case split_on sep xs of [] \<Rightarrow> [[x]] | f # fs \<Rightarrow> (x # f) # fs))"

fun join :: "'a list \<Rightarrow> 'a list list \<Rightarrow> 'a list" where
  "join sep [] = []"
| "join sep [x] = x"
| "join sep (x # y # ys) = x @ sep @ join sep (y # ys)"

definition NUL :: char where "NUL = CHR 0x00"

definition is_ws_byte :: "char \<Rightarrow> bool" where
  "is_ws_byte c = (c \<in> set [CHR 0x09, CHR 0x0A, CHR 0x0B, CHR 0x0C, CHR 0x0D, CHR 0x20])"

definition trim_bytes :: "string \<Rightarrow> string" where
  "trim_bytes s = rev (dropWhile is_ws_byte (rev (dropWhile is_ws_byte s)))"


section \<open>SASL PLAIN (\<open>AUTHENTICATE PLAIN\<close> command handler)\<close>

subsection \<open>\<open>new Buffer(token, 'base64')\<close>\<close>

text \<open>
  The base64 decoder of the Node.js runtime is lenient: decoding stops at the first
  \<open>=\<close>, characters outside the alphabet (which includes the URL-safe \<open>-\<close> and \<open>_\<close>)
  are skipped, and no padding is required. Four sextets give three bytes, three give two,
  two give one, and a single trailing sextet gives none.
\<close>

definition unbase64 :: "char \<Rightarrow> nat option" where
  "unbase64 c =
     (let n = (of_char c :: nat)
      in if 65 \<le> n \<and> n \<le> 90 then Some (n - 65)
         else if 97 \<le> n \<and> n \<le> 122 then Some (n - 71)
         else if 48 \<le> n \<and> n \<le> 57 then Some (n + 4)
         else if c = CHR ''+'' \<or> c = CHR ''-'' then Some 62
         else if c = CHR ''/'' \<or> c = CHR ''_'' then Some 63
         else None)"

definition sextets :: "string \<Rightarrow> nat list" where
  "sextets token = List.map_filter unbase64 (takeWhile (\<lambda>c. c \<noteq> CHR ''='') token)"

fun sextets_to_bytes :: "nat list \<Rightarrow> string" where
  "sextets_to_bytes (a # b # c # d # rest) =
     char_of (a * 4 + b div 16) # char_of ((b mod 16) * 16 + c div 4) #
     char_of ((c mod 4) * 64 + d) # sextets_to_bytes rest"
| "sextets_to_bytes [a, b, c] =
     [char_of (a * 4 + b div 16), char_of ((b mod 16) * 16 + c div 4)]"
| "sextets_to_bytes [a, b] = [char_of (a * 4 + b div 16)]"
| "sextets_to_bytes [a] = []"
| "sextets_to_bytes [] = []"

definition base64_decode :: "string \<Rightarrow> string" where
  "base64_decode token = sextets_to_bytes (sextets token)"

subsection \<open>\<open>authenticate\<close>\<close>

text \<open>
  \<open>toString()\<close> decodes the buffer as UTF-8. A zero byte is a character of its own in
  UTF-8 and is never part of a longer sequence, also in malformed input, so the decoded
  string splits at U+0000 exactly where the buffer splits at zero bytes. The model splits
  the bytes and keeps the fields as bytes; \<open>trim()\<close> is modelled on the ASCII white space.

  \<open>server.onAuth\<close> is the hook of the embedding server, a parameter here. It calls back
  with an error, with a response that has no \<open>user\<close>, or with a user.
\<close>

record auth_request =
  auth_method :: string
  username :: string
  password :: string

record response =
  response :: string
  code :: "string option"
  message :: string

record 'u connection =
  session_user :: "'u option"
  state :: string

type_synonym ('e, 'u) on_auth = "auth_request \<Rightarrow> 'e + 'u option"

definition authenticate ::
  "('e, 'u) on_auth \<Rightarrow> 'u connection \<Rightarrow> string \<Rightarrow> 'u connection \<times> ('e + response)" where
  "authenticate onAuth connection token =
     (let data = split_on NUL (base64_decode token)
      in if length data \<noteq> 3 then
           (connection,
            Inr \<lparr>response = ''BAD'', code = None, message = ''Invalid SASL argument''\<rparr>)
         else
           (let username = trim_bytes (data ! 1);
                password = trim_bytes (data ! 2)
            in case onAuth \<lparr>auth_method = ''PLAIN'', username = username, password = password\<rparr> of
                 Inl err \<Rightarrow> (connection, Inl err)
               | Inr None \<Rightarrow>
                   (connection,
                    Inr \<lparr>response = ''NO'', code = Some ''AUTHENTICATIONFAILED'',
                         message = ''Invalid credentials''\<rparr>)
               | Inr (Some user) \<Rightarrow>
                   (connection\<lparr>session_user := Some user, state := ''Authenticated''\<rparr>,
                    Inr \<lparr>response = ''OK'', code = None,
                         message = username @ '' authenticated''\<rparr>)))"

text \<open>
  The command handler in front of \<open>authenticate\<close>. With an empty token it sends a
  continuation request and authenticates the next input line instead (\<open>Continuation\<close>).
\<close>

record server_options =
  secure :: bool
  disableSTARTTLS :: bool
  ignoreSTARTTLS :: bool

datatype ('e, 'u) handler_result =
    Done "'u connection" "'e + response"
  | Continuation

definition handler ::
  "server_options \<Rightarrow> ('e, 'u) on_auth option \<Rightarrow> 'u connection \<Rightarrow> string \<Rightarrow>
   ('e, 'u) handler_result" where
  "handler opts onAuth connection attribute =
     (let token = trim_bytes attribute
      in if \<not> secure opts \<and> \<not> disableSTARTTLS opts \<and> \<not> ignoreSTARTTLS opts then
           Done connection
             (Inr \<lparr>response = ''BAD'', code = None, message = ''Run STARTTLS first''\<rparr>)
         else case onAuth of
           None \<Rightarrow>
             Done connection
               (Inr \<lparr>response = ''NO'', code = None,
                     message = ''Authentication not implemented''\<rparr>)
         | Some f \<Rightarrow>
             if token = [] then Continuation
             else (case authenticate f connection token of (c, r) \<Rightarrow> Done c r))"

text \<open>A hook that knows no user, to run \<open>authenticate\<close> on concrete tokens.\<close>

definition no_such_user :: "(unit, string) on_auth" where
  "no_such_user request = Inr None"

definition fresh_connection :: "string connection" where
  "fresh_connection = \<lparr>session_user = None, state = ''Not Authenticated''\<rparr>"


section \<open>Journal entries on the event stream (\<open>formatJournalData\<close>)\<close>

text \<open>
  A journal entry is a plain JavaScript object: its own keys in the order of
  \<open>Object.keys\<close>, without repetition, each with a value. Reading a missing key gives
  \<open>undefined\<close>; \<open>data[key] = v\<close> replaces the value of an existing key in place and
  appends a new key at the end.
\<close>

datatype jsvalue =
    JUndefined
  | JNull
  | JBool bool
  | JNum int
  | JStr string
  | JObjectID string
  | JDate int
  | JArr "jsvalue list"
  | JObj "(string \<times> jsvalue) list"

type_synonym jsobject = "(string \<times> jsvalue) list"

fun truthy :: "jsvalue \<Rightarrow> bool" where
  "truthy JUndefined = False"
| "truthy JNull = False"
| "truthy (JBool b) = b"
| "truthy (JNum n) = (n \<noteq> 0)"
| "truthy (JStr s) = (s \<noteq> [])"
| "truthy (JObjectID h) = True"
| "truthy (JDate d) = True"
| "truthy (JArr xs) = True"
| "truthy (JObj kvs) = True"

definition get_prop :: "jsobject \<Rightarrow> string \<Rightarrow> jsvalue" where
  "get_prop obj key = (case map_of obj key of None \<Rightarrow> JUndefined | Some v \<Rightarrow> v)"

fun set_prop :: "string \<Rightarrow> jsvalue \<Rightarrow> jsobject \<Rightarrow> jsobject" where
  "set_prop key v [] = [(key, v)]"
| "set_prop key v ((k, w) # rest) =
     (if k = key then (key, v) # rest else (k, w) # set_prop key v rest)"

definition hidden_keys :: "string list" where
  "hidden_keys = [''_id'', ''ignore'', ''user'', ''modseq'', ''unseenChange'', ''created'']"

text \<open>The body of the \<open>forEach\<close> callback, and the loop over \<open>Object.keys(e)\<close>.\<close>

definition copy_key :: "jsobject \<Rightarrow> string \<Rightarrow> jsobject \<Rightarrow> jsobject" where
  "copy_key e key data =
     (if key \<notin> set hidden_keys then
        (if get_prop e ''command'' \<noteq> JStr ''COUNTERS'' \<and> key = ''unseen'' then data
         else set_prop key (get_prop e key) data)
      else data)"

definition journal_data :: "jsobject \<Rightarrow> jsobject" where
  "journal_data e = fold (copy_key e) (map fst e) []"

text \<open>
  \<open>JSON.stringify(data, false, 2)\<close> and the \<open>toString\<close> of the \<open>_id\<close> belong to the
  runtime and to the database driver; they are parameters. The framing of the event is
  modelled as written: every line of the JSON text gets the prefix \<open>data: \<close>, the
  \<open>id: \<close> line follows when \<open>e._id\<close> is truthy, and an empty line ends the event.
\<close>

definition formatJournalData ::
  "(jsvalue \<Rightarrow> string) \<Rightarrow> (jsvalue \<Rightarrow> string) \<Rightarrow> jsobject \<Rightarrow> string" where
  "formatJournalData stringify toString e =
     (let data = journal_data e;
          response = [''data: '' @ join (CHR 0x0A # ''data: '')
                                     (split_on (CHR 0x0A) (stringify (JObj data)))];
          response = (if truthy (get_prop e ''_id'')
                      then response @ [''id: '' @ toString (get_prop e ''_id'')]
                      else response)
      in join [CHR 0x0A] response @ [CHR 0x0A, CHR 0x0A])"

text \<open>
  The payload as the specification words it: the entry without the six hidden keys, and
  without \<open>unseen\<close> unless the command is \<open>COUNTERS\<close>; every other key with its value.
\<close>

definition in_payload :: "jsobject \<Rightarrow> string \<Rightarrow> bool" where
  "in_payload e key =
     (key \<notin> {''_id'', ''ignore'', ''user'', ''modseq'', ''unseenChange'', ''created''} \<and>
      (key \<noteq> ''unseen'' \<or> get_prop e ''command'' = JStr ''COUNTERS''))"

definition payload_spec :: "jsobject \<Rightarrow> jsobject" where
  "payload_spec e = filter (\<lambda>kv. in_payload e (fst kv)) e"

text \<open>Two entries to run the formatter on, with a fixed rendering of identifiers.\<close>

definition exists_entry :: jsobject where
  "exists_entry =
     [(''_id'', JObjectID ''5a0c''), (''command'', JStr ''EXISTS''), (''uid'', JNum 5),
      (''modseq'', JNum 11), (''unseen'', JBool True), (''user'', JObjectID ''59f1'')]"

definition counters_entry :: jsobject where
  "counters_entry =
     [(''command'', JStr ''COUNTERS''), (''_id'', JObjectID ''5a0c''),
      (''mailbox'', JObjectID ''59f2''), (''total'', JNum 3), (''unseen'', JNum 1)]"

fun hex_of :: "jsvalue \<Rightarrow> string" where
  "hex_of (JObjectID h) = h"
| "hex_of v = []"

definition braces :: "jsvalue \<Rightarrow> string" where
  "braces v = ''{}''"


section \<open>The document store\<close>

text \<open>
  The collections \<open>users\<close>, \<open>mailboxes\<close>, \<open>messages\<close> and \<open>journal\<close>, the frames written
  to the IMAP session of the caller and the generator of ObjectIDs form the state that
  the handlers thread through. Numbers are JavaScript numbers used as integers; the model
  takes \<open>int\<close>. The attachment store, the thread collection and the opaque parts of a
  message (MIME tree, envelope, body structure, headers) carry no claim and are left out.
\<close>

type_synonym oid = nat

record mailbox =
  mailbox_id :: oid
  mailbox_user :: oid
  path :: string
  specialUse :: "string option"
  uidValidity :: int
  uidNext :: int
  modifyIndex :: int
  retention :: int

record message_doc =
  message_id :: oid
  root :: oid
  mailbox :: oid
  user :: oid
  uid :: int
  modseq :: int
  flags :: "string list"
  msg_size :: int
  hdate :: int
  msgid :: string
  unseen :: bool
  flagged :: bool
  undeleted :: bool
  draft :: bool
  searchable :: bool
  junk :: bool
  exp :: bool
  rdate :: int
  thread :: oid
  msg_text :: "jsstring option"
  intro :: "jsstring option"
  html :: "jsstring list option"

datatype command = EXISTS | EXPUNGE | FETCH

record entry =
  command :: command
  entry_uid :: int
  entry_message :: oid
  entry_modseq :: "int option"
  entry_unseen :: "bool option"
  ignore :: "string option"
  entry_junk :: "int option"
  entry_flags :: "string list option"
  unseenChange :: "bool option"

text \<open>
  \<open>move\<close> returns UIDs, or message ids when \<open>returnIds\<close> is set. A frame on the
  session stream is \<open>formatResponse(command, value)\<close>: the value is a UID, or in
  \<open>move\<close> the whole array \<open>sourceUid\<close>.
\<close>

datatype ident = Uid int | MessageId oid

datatype frame = Frame command int | FrameArray command "ident list"

record session =
  session_id :: string
  user_id :: oid
  selected :: "string option"

record store =
  users :: "oid \<rightharpoonup> int"
  mailboxes :: "mailbox list"
  messages :: "message_doc list"
  journal :: "(oid \<times> entry) list"
  stream :: "frame list"
  next_oid :: oid

datatype error =
    StoreError
  | TRYCREATE
  | MailboxDisappeared
  | MailboxMissing
  | NothingChanged

text \<open>
  Every call to the database whose error the handlers check is a point where the run can
  fail; \<open>fails\<close> says which ones do. Calls inside a loop carry the number of messages
  handled before.
\<close>

datatype call =
    GetMailbox
  | FindExisting
  | ReserveExisting
  | UpdateExisting
  | StoreNodeBodies
  | IncStorage
  | Reserve
  | GetThreadId
  | InsertMessage
  | DeleteMessage
  | GetSource
  | GetDestination
  | CursorNext nat
  | ReserveTarget nat
  | InsertCopy nat
  | DeleteOld nat
  | BumpMailbox
  | UpdateMessage nat

record constants =
  MAX_PLAINTEXT_CONTENT :: nat
  MAX_HTML_CONTENT :: nat
  BULK_BATCH_SIZE :: nat

subsection \<open>Primitives of the driver\<close>

fun update_first :: "('a \<Rightarrow> bool) \<Rightarrow> ('a \<Rightarrow> 'a) \<Rightarrow> 'a list \<Rightarrow> 'a list" where
  "update_first P f [] = []"
| "update_first P f (x # xs) = (if P x then f x # xs else x # update_first P f xs)"

fun delete_first :: "('a \<Rightarrow> bool) \<Rightarrow> 'a list \<Rightarrow> 'a list" where
  "delete_first P [] = []"
| "delete_first P (x # xs) = (if P x then xs else x # delete_first P xs)"

text \<open>
  \<open>findOneAndUpdate\<close> on \<open>mailboxes\<close>: the first matching document is updated, and the
  call returns the document as it was before the update when \<open>returnOriginal\<close> is true,
  the updated document when it is false. The option defaults to true in the driver; the
  calls in \<open>add\<close>, \<open>move\<close> and \<open>onCopy\<close> do not set it.
\<close>

definition findOneAndUpdate_mailbox ::
  "(mailbox \<Rightarrow> bool) \<Rightarrow> (mailbox \<Rightarrow> mailbox) \<Rightarrow> bool \<Rightarrow> store \<Rightarrow> mailbox option \<times> store" where
  "findOneAndUpdate_mailbox query upd returnOriginal db =
     (case find query (mailboxes db) of
        None \<Rightarrow> (None, db)
      | Some m \<Rightarrow>
          (Some (if returnOriginal then m else upd m),
           db\<lparr>mailboxes := update_first query upd (mailboxes db)\<rparr>))"

text \<open>The filter \<open>{_id: i}\<close> on \<open>mailboxes\<close>.\<close>

definition has_id :: "oid \<Rightarrow> mailbox \<Rightarrow> bool" where
  "has_id i m = (mailbox_id m = i)"

definition returnOriginal_default :: bool where
  "returnOriginal_default = True"

definition inc_uidNext_modifyIndex :: "mailbox \<Rightarrow> mailbox" where
  "inc_uidNext_modifyIndex m = m\<lparr>uidNext := uidNext m + 1, modifyIndex := modifyIndex m + 1\<rparr>"


definition inc_modifyIndex :: "mailbox \<Rightarrow> mailbox" where
  "inc_modifyIndex m = m\<lparr>modifyIndex := modifyIndex m + 1\<rparr>"

text \<open>
  \<open>findOneAndUpdate\<close> on \<open>users\<close> with \<open>$inc: {storageUsed: n}\<close>. The filter is
  \<open>{_id: v}\<close>; when \<open>v\<close> is \<open>undefined\<close> (\<open>None\<close>) no user matches.
\<close>

definition inc_storageUsed :: "oid option \<Rightarrow> int \<Rightarrow> store \<Rightarrow> store" where
  "inc_storageUsed u n db =
     (case u of
        None \<Rightarrow> db
      | Some i \<Rightarrow> (case users db i of
                     None \<Rightarrow> db
                   | Some s \<Rightarrow> db\<lparr>users := (users db)(i \<mapsto> s + n)\<rparr>))"

text \<open>
  Modelled from the spec: the unique indexes \<open>messages(_id)\<close> and
  \<open>messages(mailbox, uid)\<close> (section 6), which the index setup of the repository, not
  part of the sources at hand, declares. A write that would break one fails.
\<close>

definition clashes :: "message_doc \<Rightarrow> message_doc list \<Rightarrow> bool" where
  "clashes m ms =
     (\<exists>x \<in> set ms. message_id x = message_id m \<or> (mailbox x = mailbox m \<and> uid x = uid m))"

definition insertOne :: "message_doc \<Rightarrow> store \<Rightarrow> store option" where
  "insertOne m db =
     (if clashes m (messages db) then None else Some (db\<lparr>messages := messages db @ [m]\<rparr>))"

definition same_key :: "oid \<Rightarrow> oid \<Rightarrow> int \<Rightarrow> message_doc \<Rightarrow> bool" where
  "same_key i mb u x = (message_id x = i \<and> mailbox x = mb \<and> uid x = u)"

definition deleteOne :: "oid \<Rightarrow> oid \<Rightarrow> int \<Rightarrow> store \<Rightarrow> store" where
  "deleteOne i mb u db = db\<lparr>messages := delete_first (same_key i mb u) (messages db)\<rparr>"

definition new_ObjectID :: "store \<Rightarrow> oid \<times> store" where
  "new_ObjectID db = (next_oid db, db\<lparr>next_oid := next_oid db + 1\<rparr>)"

subsection \<open>Notifier and session stream\<close>

text \<open>
  Modelled from the spec: \<open>ImapNotifier.addEntries\<close> (\<open>lib/imap-notifier.js\<close> is not part
  of the sources at hand). Section 4.8: it appends the entries, in the order given, to the
  journal under the scope of the mailbox. \<open>fire\<close> only wakes listeners up and leaves the
  state as it is.
\<close>

definition addEntries :: "oid \<Rightarrow> entry list \<Rightarrow> store \<Rightarrow> store" where
  "addEntries scope entries db = db\<lparr>journal := journal db @ map (Pair scope) entries\<rparr>"

text \<open>
  \<open>options.session && options.session.selected && options.session.selected.mailbox ===
  mailboxData.path\<close>, and the write to the stream of that session.
\<close>

definition is_selected :: "session option \<Rightarrow> string \<Rightarrow> bool" where
  "is_selected s p = (case s of None \<Rightarrow> False | Some x \<Rightarrow> selected x = Some p)"

definition write_frame :: "frame \<Rightarrow> store \<Rightarrow> store" where
  "write_frame f db = db\<lparr>stream := stream db @ [f]\<rparr>"

definition session_ignore :: "session option \<Rightarrow> string option" where
  "session_ignore s = map_option session_id s"

subsection \<open>\<open>getMailbox\<close>\<close>

text \<open>
  \<open>options.mailbox\<close> is a mailbox document, which is then used as it is, or an ObjectID;
  without it the mailbox is looked up by \<open>user\<close> and \<open>specialUse\<close>, or by \<open>user\<close> and
  \<open>path\<close>.
\<close>

datatype mailbox_arg = Doc mailbox | Id oid

record mailbox_options =
  opt_mailbox :: "mailbox_arg option"
  opt_user :: "oid option"
  opt_specialUse :: "string option"
  opt_path :: "string option"

definition mailbox_query :: "'a mailbox_options_scheme \<Rightarrow> mailbox \<Rightarrow> bool" where
  "mailbox_query options m =
     (case opt_mailbox options of
        Some (Id i) \<Rightarrow>
          mailbox_id m = i \<and> (case opt_user options of None \<Rightarrow> True | Some u \<Rightarrow> mailbox_user m = u)
      | _ \<Rightarrow>
          opt_user options = Some (mailbox_user m) \<and>
          (case opt_specialUse options of
             Some s \<Rightarrow> specialUse m = Some s
           | None \<Rightarrow> opt_path options = Some (path m)))"

definition getMailbox ::
  "(call \<Rightarrow> bool) \<Rightarrow> call \<Rightarrow> 'a mailbox_options_scheme \<Rightarrow> store \<Rightarrow> error + mailbox" where
  "getMailbox fails site options db =
     (case opt_mailbox options of
        Some (Doc m) \<Rightarrow> Inr m
      | _ \<Rightarrow>
          if fails site then Inl StoreError
          else (case find (mailbox_query options) (mailboxes db) of
                  None \<Rightarrow> Inl TRYCREATE
                | Some m \<Rightarrow> Inr m))"

subsection \<open>Flags and special-use names\<close>

definition Seen :: string where "Seen = CHR 0x5C # ''Seen''"
definition Deleted :: string where "Deleted = CHR 0x5C # ''Deleted''"
definition Flagged :: string where "Flagged = CHR 0x5C # ''Flagged''"
definition Draft :: string where "Draft = CHR 0x5C # ''Draft''"
definition Junk :: string where "Junk = CHR 0x5C # ''Junk''"
definition Trash :: string where "Trash = CHR 0x5C # ''Trash''"


section \<open>\<open>MessageHandler.add\<close>\<close>

record add_options = mailbox_options +
  prepared_id :: oid
  prepared_size :: int
  prepared_hdate :: int
  prepared_msgid :: string
  opt_flags :: "string list"
  skipExisting :: bool
  opt_session :: "session option"
  maildata_text :: jsstring
  maildata_html :: "jsstring list"
  now :: int
  resolved_thread :: oid

record add_result =
  res_uidValidity :: "int option"
  res_uid :: int
  res_id :: oid
  res_mailbox :: oid
  status :: string

text \<open>
  What a step hands to its callback: nothing (\<open>callback()\<close>, the caller goes on), or an
  error, or a result.
\<close>

datatype 'a outcome = Continue | Finished "error + 'a"

subsection \<open>\<open>checkExistingMessage\<close>\<close>

definition probe :: "mailbox \<Rightarrow> int \<Rightarrow> string \<Rightarrow> message_doc \<Rightarrow> bool" where
  "probe mailboxData h m x =
     (mailbox x = mailbox_id mailboxData \<and> hdate x = h \<and> msgid x = m \<and>
      0 < uid x \<and> uid x < uidNext mailboxData)"

text \<open>
  \<open>findOneAndUpdate\<close> on \<open>messages\<close>; the write fails when the updated document would
  break a unique index.
\<close>

definition findOneAndUpdate_message ::
  "(message_doc \<Rightarrow> bool) \<Rightarrow> (message_doc \<Rightarrow> message_doc) \<Rightarrow> bool \<Rightarrow> store \<Rightarrow>
   error + (message_doc option \<times> store)" where
  "findOneAndUpdate_message query upd returnOriginal db =
     (case find query (messages db) of
        None \<Rightarrow> Inr (None, db)
      | Some m \<Rightarrow>
          if clashes (upd m) (delete_first query (messages db)) then Inl StoreError
          else Inr (Some (if returnOriginal then m else upd m),
                    db\<lparr>messages := update_first query upd (messages db)\<rparr>))"

definition expunge_entry :: "session option \<Rightarrow> message_doc \<Rightarrow> entry" where
  "expunge_entry s m =
     \<lparr>command = EXPUNGE, entry_uid = uid m, entry_message = message_id m,
      entry_modseq = None, entry_unseen = Some (unseen m), ignore = session_ignore s,
      entry_junk = None, entry_flags = None, unseenChange = None\<rparr>"

definition exists_entry_of :: "session option \<Rightarrow> message_doc \<Rightarrow> entry" where
  "exists_entry_of s m =
     \<lparr>command = EXISTS, entry_uid = uid m, entry_message = message_id m,
      entry_modseq = Some (modseq m), entry_unseen = Some (unseen m), ignore = session_ignore s,
      entry_junk = None, entry_flags = None, unseenChange = None\<rparr>"

definition checkExistingMessage ::
  "(call \<Rightarrow> bool) \<Rightarrow> mailbox \<Rightarrow> 'a add_options_scheme \<Rightarrow> store \<Rightarrow>
   add_result outcome \<times> store" where
  "checkExistingMessage fails mailboxData options db =
     (if fails FindExisting then (Finished (Inl StoreError), db)
      else case find (probe mailboxData (prepared_hdate options) (prepared_msgid options))
                     (messages db) of
        None \<Rightarrow> (Continue, db)
      | Some existing \<Rightarrow>
          if skipExisting options then
            (Finished (Inr \<lparr>res_uidValidity = None, res_uid = uid existing,
                            res_id = message_id existing, res_mailbox = mailbox_id mailboxData,
                            status = ''skip''\<rparr>), db)
          else if fails ReserveExisting then (Finished (Inl StoreError), db)
          else case findOneAndUpdate_mailbox (has_id (mailbox_id mailboxData))
                      inc_uidNext_modifyIndex True db of
            (None, db1) \<Rightarrow> (Finished (Inl TRYCREATE), db1)
          | (Some mailboxData', db1) \<Rightarrow>
              (let uid' = uidNext mailboxData';
                   modseq' = modifyIndex mailboxData' + 1
               in if fails UpdateExisting then (Finished (Inl StoreError), db1)
                  else case findOneAndUpdate_message
                              (same_key (message_id existing) (mailbox_id mailboxData')
                                 (uid existing))
                              (\<lambda>x. x\<lparr>uid := uid', modseq := modseq',
                                      flags := opt_flags options\<rparr>)
                              False db1 of
                    Inl err \<Rightarrow> (Finished (Inl err), db1)
                  | Inr (None, db2) \<Rightarrow> (Continue, db2)
                  | Inr (Some updated, db2) \<Rightarrow>
                      (let s = opt_session options;
                           db3 = (if is_selected s (path mailboxData')
                                  then write_frame (Frame EXPUNGE (uid existing)) db2 else db2);
                           db4 = (if is_selected s (path mailboxData')
                                  then write_frame (Frame EXISTS (uid updated)) db3 else db3);
                           db5 = addEntries (mailbox_id mailboxData')
                                   [expunge_entry s existing] db4;
                           db6 = addEntries (mailbox_id mailboxData')
                                   [exists_entry_of s updated] db5
                       in (Finished (Inr \<lparr>res_uidValidity = Some (uidValidity mailboxData'),
                                           res_uid = uid', res_id = message_id existing,
                                           res_mailbox = mailbox_id mailboxData',
                                           status = ''update''\<rparr>), db6))))"

subsection \<open>\<open>add\<close>\<close>

text \<open>
  The message document before the mailbox-specific values are set (lines 137-220):
  \<open>exp\<close> and \<open>rdate\<close> come from the mailbox document that \<open>getMailbox\<close> returned.
\<close>

definition prepare_messageData ::
  "'c constants_scheme \<Rightarrow> mailbox \<Rightarrow> 'a add_options_scheme \<Rightarrow> message_doc" where
  "prepare_messageData K mailboxData options =
     (let fl = opt_flags options;
          tf = text_fields (MAX_PLAINTEXT_CONTENT K) (maildata_text options)
      in \<lparr>message_id = prepared_id options,
          root = prepared_id options,
          mailbox = 0, user = 0, uid = 0, modseq = 0,
          flags = fl,
          msg_size = prepared_size options,
          hdate = prepared_hdate options,
          msgid = prepared_msgid options,
          unseen = (Seen \<notin> set fl),
          flagged = (Flagged \<in> set fl),
          undeleted = (Deleted \<notin> set fl),
          draft = (Draft \<in> set fl),
          searchable = False,
          junk = False,
          exp = (retention mailboxData \<noteq> 0),
          rdate = now options + retention mailboxData,
          thread = 0,
          msg_text = map_option fst tf,
          intro = map_option snd tf,
          html = html_field (MAX_HTML_CONTENT K) (maildata_html options)\<rparr>)"

text \<open>
  \<open>rollback\<close> takes the size off \<open>storageUsed\<close> again; \<open>cleanup\<close> only touches the
  attachment store.
\<close>

definition rollback :: "mailbox \<Rightarrow> int \<Rightarrow> error \<Rightarrow> store \<Rightarrow> (error + add_result) \<times> store" where
  "rollback mailboxData sz err db =
     (Inl err, inc_storageUsed (Some (mailbox_user mailboxData)) (- sz) db)"

text \<open>The mailbox-specific values, set once the UID is reserved (lines 269-281).\<close>

definition set_mailbox_values ::
  "mailbox \<Rightarrow> 'a add_options_scheme \<Rightarrow> message_doc \<Rightarrow> message_doc" where
  "set_mailbox_values item options messageData =
     messageData
       \<lparr>mailbox := mailbox_id item,
        user := mailbox_user item,
        uid := uidNext item,
        modseq := modifyIndex item + 1,
        searchable := (specialUse item \<notin> {Some Junk, Some Trash} \<and>
                       Deleted \<notin> set (opt_flags options)),
        junk := (specialUse item = Some Junk)\<rparr>"

definition add ::
  "'c constants_scheme \<Rightarrow> (call \<Rightarrow> bool) \<Rightarrow> 'a add_options_scheme \<Rightarrow> store \<Rightarrow>
   (error + add_result) \<times> store" where
  "add K fails options db =
     (case getMailbox fails GetMailbox options db of
        Inl err \<Rightarrow> (Inl err, db)
      | Inr mailboxData \<Rightarrow>
          (case checkExistingMessage fails mailboxData options db of
             (Finished r, db1) \<Rightarrow> (r, db1)
           | (Continue, db1) \<Rightarrow>
               if fails StoreNodeBodies then (Inl StoreError, db1)
               else
                 (let messageData = prepare_messageData K mailboxData options;
                      sz = prepared_size options
                  in if fails IncStorage then (Inl StoreError, db1)
                     else
                       (let db2 = inc_storageUsed (Some (mailbox_user mailboxData)) sz db1
                        in if fails Reserve then rollback mailboxData sz StoreError db2
                           else case findOneAndUpdate_mailbox
                                       (has_id (mailbox_id mailboxData))
                                       inc_uidNext_modifyIndex returnOriginal_default db2 of
                             (None, db3) \<Rightarrow> rollback mailboxData sz TRYCREATE db3
                           | (Some item, db3) \<Rightarrow>
                               (let messageData = set_mailbox_values item options messageData
                                in if fails GetThreadId then rollback mailboxData sz StoreError db3
                                   else
                                     (let messageData =
                                            messageData\<lparr>thread := resolved_thread options\<rparr>
                                      in if fails InsertMessage
                                         then rollback mailboxData sz StoreError db3
                                         else case insertOne messageData db3 of
                                           None \<Rightarrow> rollback mailboxData sz StoreError db3
                                         | Some db4 \<Rightarrow>
                                             (let s = opt_session options;
                                                  db5 = (if is_selected s (path item)
                                                         then write_frame
                                                                (Frame EXISTS (uid messageData)) db4
                                                         else db4);
                                                  db6 = addEntries (mailbox_id item)
                                                          [exists_entry_of s messageData] db5
                                              in (Inr \<lparr>res_uidValidity = Some (uidValidity item),
                                                        res_uid = uid messageData,
                                                        res_id = message_id messageData,
                                                        res_mailbox = mailbox_id item,
                                                        status = ''new''\<rparr>, db6))))))))"

text \<open>The document that a successful \<open>add\<close> inserts.\<close>

definition final_message ::
  "'c constants_scheme \<Rightarrow> mailbox \<Rightarrow> mailbox \<Rightarrow> 'a add_options_scheme \<Rightarrow> message_doc" where
  "final_message K mailboxData item options =
     (set_mailbox_values item options (prepare_messageData K mailboxData options))
       \<lparr>thread := resolved_thread options\<rparr>"


section \<open>\<open>MessageHandler.del\<close>\<close>

text \<open>
  \<open>updateQuota(mailboxData, inc, callback)\<close> reads \<open>mailboxData.user\<close>. Its first
  argument is any JavaScript value: on a mailbox document the property is the owner, on
  an ObjectID there is no such property and the read gives \<open>undefined\<close>.
  \<open>Number(inc.storageUsed) || 0\<close> is the increment, 0 when there is none.
\<close>

datatype quota_arg = MailboxDocument mailbox | ObjectID oid

fun user_property :: "quota_arg \<Rightarrow> oid option" where
  "user_property (MailboxDocument m) = Some (mailbox_user m)"
| "user_property (ObjectID i) = None"

definition updateQuota :: "quota_arg \<Rightarrow> int option \<Rightarrow> store \<Rightarrow> store" where
  "updateQuota mailboxData inc db =
     inc_storageUsed (user_property mailboxData) (case inc of None \<Rightarrow> 0 | Some n \<Rightarrow> n) db"

record del_options =
  del_message :: message_doc
  del_mailbox :: "mailbox_options option"
  del_session :: "session option"

definition del :: "(call \<Rightarrow> bool) \<Rightarrow> del_options \<Rightarrow> store \<Rightarrow> (error + bool) \<times> store" where
  "del fails options db =
     (let m = del_message options;
          target = (case del_mailbox options of
                      Some t \<Rightarrow> t
                    | None \<Rightarrow> \<lparr>opt_mailbox = Some (Id (mailbox m)), opt_user = None,
                               opt_specialUse = None, opt_path = None\<rparr>)
      in case getMailbox fails GetMailbox target db of
           Inl err \<Rightarrow> (Inl err, db)
         | Inr mailboxData \<Rightarrow>
             if fails DeleteMessage then (Inl StoreError, db)
             else
               (let db1 = deleteOne (message_id m) (mailbox_id mailboxData) (uid m) db;
                    db2 = updateQuota (ObjectID (mailbox_id mailboxData))
                            (Some (- msg_size m)) db1;
                    s = del_session options;
                    db3 = (if is_selected s (path mailboxData)
                           then write_frame (Frame EXPUNGE (uid m)) db2 else db2);
                    db4 = addEntries (mailbox_id mailboxData) [expunge_entry s m] db3
                in (Inr True, db4)))"

section \<open>A small store to run the handlers on\<close>

definition no_faults :: "call \<Rightarrow> bool" where
  "no_faults c = False"

text \<open>
  Modelled from the spec: \<open>consts.BULK_BATCH_SIZE\<close> is 150 (section 5, "source uses
  150"); the module \<open>consts\<close> is not part of the sources at hand. The spec gives no value
  for the two content limits, which play no part in the runs below.
\<close>

definition K0 :: constants where
  "K0 = \<lparr>MAX_PLAINTEXT_CONTENT = 1000, MAX_HTML_CONTENT = 1000, BULK_BATCH_SIZE = 150\<rparr>"

definition inbox0 :: mailbox where
  "inbox0 = \<lparr>mailbox_id = 1, mailbox_user = 7, path = ''INBOX'', specialUse = None,
             uidValidity = 1, uidNext = 5, modifyIndex = 10, retention = 0\<rparr>"

definition store0 :: store where
  "store0 = \<lparr>users = [7 \<mapsto> 0], mailboxes = [inbox0], messages = [], journal = [],
             stream = [], next_oid = 1000\<rparr>"

definition delivery :: add_options where
  "delivery = \<lparr>opt_mailbox = Some (Id 1), opt_user = None, opt_specialUse = None,
               opt_path = None, prepared_id = 100, prepared_size = 30,
               prepared_hdate = 1704067200000, prepared_msgid = ''<x@y>'', opt_flags = [],
               skipExisting = False, opt_session = None, maildata_text = [],
               maildata_html = [], now = 0, resolved_thread = 200\<rparr>"


definition message0 :: message_doc where
  "message0 = \<lparr>message_id = 100, root = 100, mailbox = 1, user = 7, uid = 5, modseq = 11,
               flags = [], msg_size = 30, hdate = 1704067200000, msgid = ''<x@y>'',
               unseen = True, flagged = False, undeleted = True, draft = False,
               searchable = True, junk = False, exp = False, rdate = 0, thread = 200,
               msg_text = None, intro = None, html = None\<rparr>"

definition store1 :: store where
  "store1 = \<lparr>users = [7 \<mapsto> 30],
             mailboxes = [inbox0\<lparr>uidNext := 6, modifyIndex := 11\<rparr>],
             messages = [message0],
             journal = [(1, exists_entry_of None message0)],
             stream = [], next_oid = 1000\<rparr>"


section \<open>\<open>MessageHandler.move\<close>\<close>

text \<open>
  The keys of \<open>options.updates\<close> and of \<open>changes\<close>, in the order of \<open>Object.keys\<close>, each
  with its value: a boolean for \<open>seen\<close>, \<open>deleted\<close>, \<open>flagged\<close> and \<open>draft\<close>, a date in
  milliseconds or \<open>null\<close> for \<open>expires\<close>. Any other key is skipped by the \<open>switch\<close>.
\<close>

datatype change =
    SetSeen bool
  | SetDeleted bool
  | SetFlagged bool
  | SetDraft bool
  | SetExpires "int option"
  | OtherKey string











record move_acc =
  acc_sourceUid :: "ident list"
  acc_destinationUid :: "ident list"
  removeEntries :: "entry list"
  existsEntries :: "entry list"



text \<open>
  The flush: the \<open>EXPUNGE\<close> entries go to the journal of the source mailbox, then the
  \<open>EXISTS\<close> entries to the journal of the destination.
\<close>

definition flush_entries :: "mailbox \<Rightarrow> mailbox \<Rightarrow> move_acc \<Rightarrow> store \<Rightarrow> store" where
  "flush_entries mailboxData target acc db =
     addEntries (mailbox_id target) (existsEntries acc)
       (addEntries (mailbox_id mailboxData) (removeEntries acc) db)"
















section \<open>\<open>MessageHandler.update\<close>\<close>

text \<open>
  The update document that the loop over \<open>Object.keys(changes)\<close> builds: \<open>$set\<close> as the
  function that writes its fields into a message, the flags for \<open>$addToSet\<close> and for
  \<open>$pull\<close>, and the local \<open>update\<close>. A later assignment to a field of \<open>$set\<close> replaces
  an earlier one.
\<close>

record update_document =
  dollar_set :: "message_doc \<Rightarrow> message_doc"
  addFlags :: "string list"
  removeFlags :: "string list"
  recognized :: bool

definition no_update :: update_document where
  "no_update = \<lparr>dollar_set = (\<lambda>m. m), addFlags = [], removeFlags = [], recognized = False\<rparr>"

text \<open>The \<open>switch\<close> of lines 997-1047; the case \<open>draft\<close> assigns \<open>$set.flagged\<close>.\<close>

fun note_change :: "change \<Rightarrow> update_document \<Rightarrow> update_document" where
  "note_change (SetSeen v) u =
     u\<lparr>dollar_set := (\<lambda>m. (dollar_set u m)\<lparr>unseen := \<not> v\<rparr>),
       addFlags := (if v then addFlags u @ [Seen] else addFlags u),
       removeFlags := (if v then removeFlags u else removeFlags u @ [Seen]),
       recognized := True\<rparr>"
| "note_change (SetDeleted v) u =
     u\<lparr>dollar_set := (\<lambda>m. (dollar_set u m)\<lparr>undeleted := \<not> v\<rparr>),
       addFlags := (if v then addFlags u @ [Deleted] else addFlags u),
       removeFlags := (if v then removeFlags u else removeFlags u @ [Deleted]),
       recognized := True\<rparr>"
| "note_change (SetFlagged v) u =
     u\<lparr>dollar_set := (\<lambda>m. (dollar_set u m)\<lparr>flagged := v\<rparr>),
       addFlags := (if v then addFlags u @ [Flagged] else addFlags u),
       removeFlags := (if v then removeFlags u else removeFlags u @ [Flagged]),
       recognized := True\<rparr>"
| "note_change (SetDraft v) u =
     u\<lparr>dollar_set := (\<lambda>m. (dollar_set u m)\<lparr>flagged := v\<rparr>),
       addFlags := (if v then addFlags u @ [Draft] else addFlags u),
       removeFlags := (if v then removeFlags u else removeFlags u @ [Draft]),
       recognized := True\<rparr>"
| "note_change (SetExpires (Some d)) u =
     u\<lparr>dollar_set := (\<lambda>m. (dollar_set u m)\<lparr>exp := True, rdate := d\<rparr>),
       recognized := True\<rparr>"
| "note_change (SetExpires None) u =
     u\<lparr>dollar_set := (\<lambda>m. (dollar_set u m)\<lparr>exp := False\<rparr>), recognized := True\<rparr>"
| "note_change (OtherKey k) u = u"

definition note_changes :: "change list \<Rightarrow> update_document" where
  "note_changes changes = fold note_change changes no_update"

text \<open>\<open>!!changes.seen\<close>\<close>

definition seen_change :: "change list \<Rightarrow> bool" where
  "seen_change changes = (SetSeen True \<in> set changes)"

text \<open>
  How the database applies the update document to a message: \<open>$set\<close> (with the new
  \<open>modseq\<close>), \<open>$addToSet\<close> with \<open>$each\<close>, \<open>$pull\<close> with \<open>$in\<close>. The database refuses a
  document in which \<open>$addToSet\<close> and \<open>$pull\<close> both name the field \<open>flags\<close>.
\<close>

definition addToSet_each :: "string list \<Rightarrow> string list \<Rightarrow> string list" where
  "addToSet_each new fl = fold (\<lambda>f acc. if f \<in> set acc then acc else acc @ [f]) new fl"

definition pull_in :: "string list \<Rightarrow> string list \<Rightarrow> string list" where
  "pull_in gone fl = filter (\<lambda>f. f \<notin> set gone) fl"

definition conflicting :: "update_document \<Rightarrow> bool" where
  "conflicting u = (addFlags u \<noteq> [] \<and> removeFlags u \<noteq> [])"

definition apply_update :: "update_document \<Rightarrow> int \<Rightarrow> message_doc \<Rightarrow> message_doc" where
  "apply_update u ms m =
     (let m1 = (dollar_set u m)\<lparr>modseq := ms\<rparr>
      in m1\<lparr>flags := pull_in (removeFlags u) (addToSet_each (addFlags u) (flags m1))\<rparr>)"

definition fetch_entry :: "message_doc \<Rightarrow> bool \<Rightarrow> entry" where
  "fetch_entry m sc =
     \<lparr>command = FETCH, entry_uid = uid m, entry_message = message_id m,
      entry_modseq = None, entry_unseen = None, ignore = None,
      entry_junk = None, entry_flags = Some (flags m), unseenChange = Some sc\<rparr>"

text \<open>The filter \<open>{_id: mailbox, user}\<close> on \<open>mailboxes\<close>.\<close>

definition owned_by :: "oid \<Rightarrow> oid \<Rightarrow> mailbox \<Rightarrow> bool" where
  "owned_by i u m = (mailbox_id m = i \<and> mailbox_user m = u)"

text \<open>
  The loop of \<open>update\<close> over the cursor, with \<open>updatedCount\<close> and \<open>notifyEntries\<close>. The
  \<open>findOneAndUpdate\<close> on the message does not set \<open>returnOriginal\<close>: the entry carries the
  flags of the document as it was before the update.
\<close>

fun update_loop ::
  "'c constants_scheme \<Rightarrow> (call \<Rightarrow> bool) \<Rightarrow> oid \<Rightarrow> update_document \<Rightarrow> bool \<Rightarrow> mailbox \<Rightarrow> nat \<Rightarrow>
   message_doc list \<Rightarrow> nat \<times> entry list \<Rightarrow> store \<Rightarrow> error option \<times> (nat \<times> entry list) \<times> store" where
  "update_loop K fails mb u sc mailboxData n [] acc db =
     (if fails (CursorNext n) then (Some StoreError, acc, db) else (None, acc, db))"
| "update_loop K fails mb u sc mailboxData n (messageData # cursor) acc db =
     (if fails (CursorNext n) then (Some StoreError, acc, db)
      else if fails (UpdateMessage n) \<or> conflicting u then (Some StoreError, acc, db)
      else case findOneAndUpdate_message
                  (same_key (message_id messageData) mb (uid messageData))
                  (apply_update u (modifyIndex mailboxData)) returnOriginal_default db of
        Inl err \<Rightarrow> (Some err, acc, db)
      | Inr (None, db1) \<Rightarrow> update_loop K fails mb u sc mailboxData (Suc n) cursor acc db1
      | Inr (Some original, db1) \<Rightarrow>
          (let updatedCount = Suc (fst acc);
               notifyEntries = snd acc @ [fetch_entry original sc]
           in if length notifyEntries \<ge> BULK_BATCH_SIZE K then
                update_loop K fails mb u sc mailboxData (Suc n) cursor (updatedCount, [])
                  (addEntries (mailbox_id mailboxData) notifyEntries db1)
              else update_loop K fails mb u sc mailboxData (Suc n) cursor
                     (updatedCount, notifyEntries) db1))"

definition update_done ::
  "mailbox \<Rightarrow> error option \<times> (nat \<times> entry list) \<times> store \<Rightarrow> (error + nat) \<times> store" where
  "update_done mailboxData st =
     (case st of
        (err, (updatedCount, notifyEntries), db) \<Rightarrow>
          (let db' = (if notifyEntries \<noteq> []
                      then addEntries (mailbox_id mailboxData) notifyEntries db else db)
           in case err of Some e \<Rightarrow> (Inl e, db') | None \<Rightarrow> (Inr updatedCount, db')))"

definition update ::
  "'c constants_scheme \<Rightarrow> (call \<Rightarrow> bool) \<Rightarrow> oid \<Rightarrow> oid \<Rightarrow> (int \<Rightarrow> bool) \<Rightarrow> change list \<Rightarrow>
   store \<Rightarrow> (error + nat) \<times> store" where
  "update K fails usr mb messageQuery changes db =
     (let u = note_changes changes
      in if \<not> recognized u then (Inl NothingChanged, db)
         else if fails BumpMailbox then (Inl StoreError, db)
         else case findOneAndUpdate_mailbox (owned_by mb usr) inc_modifyIndex False db of
           (None, db1) \<Rightarrow> (Inl MailboxMissing, db1)
         | (Some mailboxData, db1) \<Rightarrow>
             (let cursor = filter (\<lambda>m. mailbox m = mailbox_id mailboxData \<and>
                                        messageQuery (uid m)) (messages db1)
              in update_done mailboxData
                   (update_loop K fails mb u (seen_change changes) mailboxData 0 cursor
                      (0, []) db1)))"

definition any_uid :: "int \<Rightarrow> bool" where
  "any_uid u = True"


section \<open>\<open>onCopy\<close>\<close>















section \<open>Properties of the derived fields\<close>

subsection \<open>Facts about the string helpers\<close>

lemma byteLength_ascii: "byteLength (replicate n (0x61::code_unit)) = n"
proof (induction n rule: less_induct)
  case (less n)
  show ?case
  proof (cases n)
    case 0
    then show ?thesis by simp
  next
    case (Suc m)
    show ?thesis
    proof (cases m)
      case 0
      with Suc show ?thesis by (simp add: unit_bytes_def)
    next
      case (Suc k)
      with \<open>n = Suc m\<close> less.IH[of m] show ?thesis
        by (simp add: unit_bytes_def is_high_def)
    qed
  qed
qed

lemma trim_head: "trim s \<noteq> [] \<Longrightarrow> \<not> is_ws (hd (trim s))"
proof -
  assume ne: "trim s \<noteq> []"
  define d where "d = dropWhile is_ws s"
  have dne: "d \<noteq> []"
    using ne by (auto simp: trim_def d_def simp del: dropWhile_eq_Nil_conv)
  then have hd: "\<not> is_ws (hd d)"
    unfolding d_def by (metis hd_dropWhile)
  obtain x xs where d: "d = x # xs"
    using dne by (cases d) auto
  have "dropWhile is_ws (rev xs @ [x]) = dropWhile is_ws (rev xs) @ [x]"
    using hd d by (simp add: dropWhile_append3)
  then have "trim s = x # rev (dropWhile is_ws (rev xs))"
    by (simp add: trim_def d_def[symmetric] d)
  then show ?thesis
    using hd d by simp
qed

lemma collapsed_head: "collapsed t \<noteq> [] \<Longrightarrow> \<not> is_ws (hd (collapsed t))"
  unfolding collapsed_def by (rule trim_head)

lemma is_ws_SP: "is_ws SP"
  by (simp add: is_ws_def SP_def)

lemma not_ws_a: "\<not> is_ws 0x61"
  by (simp add: is_ws_def)

lemma lastIndexOf_split:
  assumes "c \<in> set s"
  shows "\<exists>p r. s = p @ c # r \<and> c \<notin> set r \<and> lastIndexOf s c = int (length p)"
proof -
  obtain p r where s: "s = p @ c # r" and r: "c \<notin> set r"
    using assms by (metis split_list_last)
  have "takeWhile (\<lambda>d. d \<noteq> c) (rev r @ c # rev p) = rev r"
    using r by (subst takeWhile_append2) auto
  then have "lastIndexOf s c = int (length p)"
    using assms s by (simp add: lastIndexOf_def)
  with s r show ?thesis by blast
qed

lemma trim_plain: "\<not> is_ws c \<Longrightarrow> trim (replicate n c) = replicate n c"
  by (simp add: trim_def dropWhile_replicate)

lemma crlf_plain: "c \<noteq> CR \<Longrightarrow> crlf_to_lf (replicate n c) = replicate n c"
proof (induction n)
  case 0
  then show ?case by simp
next
  case (Suc n)
  then show ?case by (cases n) simp_all
qed

lemma collapse_plain: "\<not> is_ws c \<Longrightarrow> collapse_ws (replicate n c) = replicate n c"
  by (induction n) simp_all

lemma text_fields_plain:
  "text_fields 1000 (replicate 129 0x61) =
     Some (replicate 129 0x61, replicate 128 0x61 @ [ELLIPSIS])"
proof -
  have t: "stored_text 1000 (replicate 129 0x61) = replicate 129 0x61"
    by (simp add: stored_text_def crlf_plain CR_def trim_plain not_ws_a)
  have "SP \<notin> set (replicate 128 (0x61::code_unit))"
    by (simp add: SP_def)
  then have "intro_of (replicate 129 0x61) = replicate 128 0x61 @ [ELLIPSIS]"
    by (simp add: intro_of_def collapsed_def collapse_plain trim_plain not_ws_a
        substr0_def lastIndexOf_def)
  with t show ?thesis
    by (simp add: text_fields_def)
qed

subsection \<open>The preview \<open>intro\<close>\<close>

text \<open>
  Claim C8, as the source has it. Let \<open>c\<close> be the white-space-collapsed stored text. If
  \<open>c\<close> has at most 128 code units, \<open>intro\<close> is \<open>c\<close>. Otherwise \<open>intro\<close> is a prefix of
  \<open>c\<close> followed by an ellipsis: the prefix ends before the last space among the first 128
  code units when there is one (the result then has at most 128 code units), and it is
  the whole 128 code units when there is none (the result then has 129). In every case
  \<open>intro\<close> has at most 129 code units.
\<close>

theorem intro_shape:
  assumes "text_fields limit text = Some (t, preview)"
  shows "length preview \<le> 129 \<and>
         (length (collapsed t) \<le> 128 \<longrightarrow> preview = collapsed t) \<and>
         (length (collapsed t) > 128 \<and> SP \<notin> set (take 128 (collapsed t)) \<longrightarrow>
            preview = take 128 (collapsed t) @ [ELLIPSIS]) \<and>
         (length (collapsed t) > 128 \<and> SP \<in> set (take 128 (collapsed t)) \<longrightarrow>
            (\<exists>p r. take 128 (collapsed t) = p @ SP # r \<and> SP \<notin> set r \<and>
                   preview = p @ [ELLIPSIS] \<and> length preview \<le> 128))"
proof -
  define c where "c = collapsed t"
  have eq: "preview = intro_of t"
    using assms by (auto simp: text_fields_def Let_def split: if_splits)
  have short: "length c \<le> 128 \<Longrightarrow> preview = c"
    by (simp add: eq intro_of_def c_def Let_def)
  have nosp: "preview = take 128 c @ [ELLIPSIS]"
    if "length c > 128" "SP \<notin> set (take 128 c)"
    using that
    by (simp add: eq intro_of_def c_def[symmetric] Let_def substr0_def lastIndexOf_def)
  have sp: "\<exists>p r. take 128 c = p @ SP # r \<and> SP \<notin> set r \<and> preview = p @ [ELLIPSIS]
                  \<and> length preview \<le> 128"
    if len: "length c > 128" and mem: "SP \<in> set (take 128 c)"
  proof -
    obtain p r where split: "take 128 c = p @ SP # r" and r: "SP \<notin> set r"
      and idx: "lastIndexOf (take 128 c) SP = int (length p)"
      using lastIndexOf_split[OF mem] by blast
    have "c \<noteq> []"
      using len by auto
    then have "\<not> is_ws (hd c)"
      unfolding c_def by (rule collapsed_head)
    moreover have "hd (take 128 c) = hd c"
      using \<open>c \<noteq> []\<close> by (cases c) auto
    ultimately have "p \<noteq> []"
      using split is_ws_SP by (cases p) auto
    then have pos: "0 < length p"
      by simp
    have "length (take 128 c) = 128"
      using len by simp
    then have lp: "length p < 128"
      using split by (metis add_Suc_right length_append length_Cons less_add_Suc1)
    have "preview = p @ [ELLIPSIS]"
      using len pos idx split
      by (simp add: eq intro_of_def c_def[symmetric] Let_def substr0_def)
    with split r lp show ?thesis
      by auto
  qed
  have "length preview \<le> 129"
  proof (cases "length c \<le> 128")
    case True
    then show ?thesis using short by simp
  next
    case False
    then have len: "length c > 128" by simp
    show ?thesis
    proof (cases "SP \<in> set (take 128 c)")
      case True
      with sp[OF len] show ?thesis by auto
    next
      case False
      with nosp[OF len] len show ?thesis by simp
    qed
  qed
  with short nosp sp show ?thesis
    unfolding c_def by blast
qed

theorem intro_shape_witness:
  "text_fields 1000 (replicate 129 0x61) =
     Some (replicate 129 0x61, replicate 128 0x61 @ [ELLIPSIS]) \<and>
   length (replicate 128 (0x61::code_unit) @ [ELLIPSIS]) \<le> 129"
  using intro_shape[OF text_fields_plain] text_fields_plain by simp

text \<open>
  The claim as written (\<open>intro\<close> never exceeds 128 characters) fails for a text of 129
  letters and no space: nothing is cut at a word boundary and the ellipsis is the 129th
  code unit.
\<close>

theorem intro_exceeds_128:
  "text_fields 1000 (replicate 129 0x61) =
     Some (replicate 129 0x61, replicate 128 0x61 @ [ELLIPSIS]) \<and>
   \<not> length (replicate 128 (0x61::code_unit) @ [ELLIPSIS]) \<le> 128"
  using text_fields_plain by simp

subsection \<open>The \<open>html\<close> budget\<close>

lemma html_field_no_empty: "html_field budget hs0 = Some hs \<Longrightarrow> [] \<notin> set hs"
  by (auto simp: html_field_def split: if_splits)

text \<open>
  Claim C7 says that the bytes retained in \<open>html[]\<close> never exceed \<open>MAX_HTML_CONTENT\<close>.
  The source cuts an entry that does not fit to \<open>htmlSize + byteLength(html) -
  MAX_HTML_CONTENT\<close> code units, which is the overflow and not the room that is left.
  For every positive budget, a first entry of one byte less than the budget followed by
  an entry of three bytes leaves one byte more than the budget.
\<close>

theorem html_budget_exceeded:
  assumes "0 < budget"
  shows "html_bytes (html_field budget
           [replicate (budget - 1) 0x61, [0x61, 0x61, 0x61]]) = budget + 1"
proof (cases "budget = 1")
  case True
  then show ?thesis
    by (simp add: html_field_def html_bytes_def substr0_def unit_bytes_def is_high_def)
next
  case False
  with assms have m: "2 \<le> budget"
    by simp
  then have ne: "replicate (budget - 1) (0x61::code_unit) \<noteq> []"
    by simp
  have three: "byteLength [0x61, 0x61, 0x61] = 3"
    by (simp add: unit_bytes_def is_high_def)
  have two: "byteLength [0x61, 0x61] = 2"
    by (simp add: unit_bytes_def is_high_def)
  have tk: "take (nat (int (budget - 1) + 3 - int budget))
              [0x61, 0x61, 0x61::code_unit] = [0x61, 0x61]"
  proof -
    have "nat (int (budget - 1) + 3 - int budget) = 2"
      using m by simp
    then show ?thesis by simp
  qed
  have "html_map budget 0 [replicate (budget - 1) 0x61, [0x61, 0x61, 0x61]]
          = [replicate (budget - 1) 0x61, [0x61, 0x61]]"
    using m ne
    by (simp add: substr0_def byteLength_ascii three two tk Let_def del: byteLength.simps)
  then show ?thesis
    using m by (simp add: html_field_def html_bytes_def byteLength_ascii two del: byteLength.simps)
qed

theorem html_budget_exceeded_witness:
  "(0::nat) < 10 \<and>
   html_bytes (html_field 10 [replicate (10 - 1) 0x61, [0x61, 0x61, 0x61]]) = 10 + 1"
  using html_budget_exceeded [of 10] by simp


section \<open>SASL PLAIN\<close>

lemma split_on_ne: "split_on sep xs \<noteq> []"
  by (induction xs) (auto split: list.splits)

lemma length_split_on: "length (split_on sep xs) = count_list xs sep + 1"
  by (induction xs) (auto split: list.splits simp: split_on_ne)

lemma decode_AAA: "base64_decode ''AAA'' = [NUL, NUL]"
  by (simp add: base64_decode_def sextets_def unbase64_def NUL_def char_of_def)

lemma decode_AA: "base64_decode ''AA'' = [NUL]"
  by (simp add: base64_decode_def sextets_def unbase64_def NUL_def char_of_def)

text \<open>
  Claim C4, as the source has it. \<open>authenticate\<close> answers \<open>BAD Invalid SASL argument\<close>
  exactly when the decoded token does not hold two zero bytes, that is, when it does not
  split into three fields. The token \<open>AAA\<close> decodes to two zero bytes, three empty fields:
  it passes the check and goes to \<open>onAuth\<close> with an empty user name and password.
\<close>

theorem sasl_plain_arity:
  "(snd (authenticate onAuth connection token) =
      Inr \<lparr>response = ''BAD'', code = None, message = ''Invalid SASL argument''\<rparr>)
     = (count_list (base64_decode token) NUL \<noteq> 2)
   \<and> length (split_on NUL (base64_decode token)) = count_list (base64_decode token) NUL + 1
   \<and> count_list (base64_decode ''AAA'') NUL = 2"
proof -
  let ?n = "count_list (base64_decode token) NUL"
  have len: "length (split_on NUL (base64_decode token)) = ?n + 1"
    by (rule length_split_on)
  have "snd (authenticate onAuth connection token) =
          Inr \<lparr>response = ''BAD'', code = None, message = ''Invalid SASL argument''\<rparr>"
    if "?n \<noteq> 2"
    using that len by (simp add: authenticate_def)
  moreover have "snd (authenticate onAuth connection token) \<noteq>
          Inr \<lparr>response = ''BAD'', code = None, message = ''Invalid SASL argument''\<rparr>"
    if "?n = 2"
    using that len by (simp add: authenticate_def Let_def split: sum.splits option.splits)
  moreover have "count_list (base64_decode ''AAA'') NUL = 2"
    by (simp add: decode_AAA)
  ultimately show ?thesis
    using len by blast
qed

theorem sasl_plain_arity_witness:
  "count_list (base64_decode ''AA'') NUL \<noteq> 2 \<and>
   snd (authenticate no_such_user fresh_connection ''AA'') =
     Inr \<lparr>response = ''BAD'', code = None, message = ''Invalid SASL argument''\<rparr>"
  using sasl_plain_arity [of no_such_user fresh_connection "''AA''"]
  by (simp add: decode_AA)

text \<open>The token \<open>AAA\<close> does not get \<open>BAD Invalid SASL argument\<close>.\<close>

theorem sasl_AAA_not_rejected:
  "authenticate no_such_user fresh_connection ''AAA'' =
     (fresh_connection,
      Inr \<lparr>response = ''NO'', code = Some ''AUTHENTICATIONFAILED'',
           message = ''Invalid credentials''\<rparr>)
   \<and> snd (authenticate no_such_user fresh_connection ''AAA'') \<noteq>
       Inr \<lparr>response = ''BAD'', code = None, message = ''Invalid SASL argument''\<rparr>"
  by (simp add: authenticate_def decode_AAA NUL_def no_such_user_def trim_bytes_def)


section \<open>Journal entries on the event stream\<close>

lemma set_prop_fresh: "key \<notin> fst ` set data \<Longrightarrow> set_prop key v data = data @ [(key, v)]"
  by (induction data) auto

lemma get_prop_distinct:
  "distinct (map fst e) \<Longrightarrow> (k, v) \<in> set e \<Longrightarrow> get_prop e k = v"
  by (simp add: get_prop_def)

lemma in_payload_copy:
  "in_payload e key = (key \<notin> set hidden_keys \<and>
     \<not> (get_prop e ''command'' \<noteq> JStr ''COUNTERS'' \<and> key = ''unseen''))"
  by (auto simp: in_payload_def hidden_keys_def)

lemma fold_copy_key:
  assumes "e = pre @ suf" and "distinct (map fst e)"
  shows "fold (copy_key e) (map fst suf) (filter (\<lambda>kv. in_payload e (fst kv)) pre)
         = filter (\<lambda>kv. in_payload e (fst kv)) e"
  using assms
proof (induction suf arbitrary: pre)
  case Nil
  then show ?case by simp
next
  case (Cons kv suf)
  obtain k v where kv: "kv = (k, v)"
    by (cases kv)
  have e: "e = (pre @ [kv]) @ suf"
    using Cons.prems by simp
  have mem: "(k, v) \<in> set e"
    using Cons.prems kv by simp
  have val: "get_prop e k = v"
    using get_prop_distinct[OF Cons.prems(2) mem] .
  have fresh: "k \<notin> fst ` set pre"
    using Cons.prems kv by auto
  then have fresh': "k \<notin> fst ` set (filter (\<lambda>kv. in_payload e (fst kv)) pre)"
    by auto
  have step: "copy_key e k (filter (\<lambda>kv. in_payload e (fst kv)) pre)
              = filter (\<lambda>kv. in_payload e (fst kv)) (pre @ [kv])"
  proof (cases "in_payload e k")
    case True
    then show ?thesis
      using set_prop_fresh[OF fresh'] val kv
      by (simp add: copy_key_def in_payload_copy)
  next
    case False
    then show ?thesis
      using kv by (auto simp: copy_key_def in_payload_copy)
  qed
  show ?case
    using Cons.IH[OF e Cons.prems(2)] step kv by simp
qed

lemma journal_data_payload:
  "distinct (map fst e) \<Longrightarrow> journal_data e = payload_spec e"
  using fold_copy_key[of e "[]" e] by (simp add: journal_data_def payload_spec_def)

text \<open>
  Claim C9. For an entry with distinct keys, the object handed to \<open>JSON.stringify\<close> is
  the entry without \<open>_id\<close>, \<open>ignore\<close>, \<open>user\<close>, \<open>modseq\<close>, \<open>unseenChange\<close> and
  \<open>created\<close>, and without \<open>unseen\<close> unless the command is \<open>COUNTERS\<close>; all other keys
  keep their order and values. The event is that JSON text with \<open>data: \<close> in front of
  every line, then the line \<open>id: \<close> with the entry's \<open>_id\<close> when it has one (an
  ObjectID, or any other truthy value), then an empty line.
\<close>

theorem formatJournalData_payload:
  assumes "distinct (map fst e)"
  shows "journal_data e = payload_spec e \<and>
         formatJournalData stringify toString e =
           ''data: '' @ join (CHR 0x0A # ''data: '')
                          (split_on (CHR 0x0A) (stringify (JObj (payload_spec e))))
           @ (if truthy (get_prop e ''_id'')
              then CHR 0x0A # ''id: '' @ toString (get_prop e ''_id'') else [])
           @ [CHR 0x0A, CHR 0x0A]"
  using journal_data_payload[OF assms]
  by (simp add: formatJournalData_def Let_def)

theorem formatJournalData_payload_witness:
  "distinct (map fst exists_entry) \<and>
   journal_data exists_entry = [(''command'', JStr ''EXISTS''), (''uid'', JNum 5)] \<and>
   formatJournalData braces hex_of exists_entry =
     ''data: {}'' @ [CHR 0x0A] @ ''id: 5a0c'' @ [CHR 0x0A, CHR 0x0A]"
proof -
  have d: "distinct (map fst exists_entry)"
    by (simp add: exists_entry_def)
  have p: "payload_spec exists_entry = [(''command'', JStr ''EXISTS''), (''uid'', JNum 5)]"
    by (simp add: payload_spec_def exists_entry_def in_payload_def get_prop_def)
  have i: "get_prop exists_entry ''_id'' = JObjectID ''5a0c''"
    by (simp add: exists_entry_def get_prop_def)
  show ?thesis
    using formatJournalData_payload[OF d, of braces hex_of] d p i by (simp add: braces_def)
qed

lemma counters_keeps_unseen:
  "journal_data counters_entry =
     [(''command'', JStr ''COUNTERS''), (''mailbox'', JObjectID ''59f2''),
      (''total'', JNum 3), (''unseen'', JNum 1)]"
  by (simp add: journal_data_def counters_entry_def copy_key_def hidden_keys_def get_prop_def)


section \<open>\<open>add\<close>, \<open>checkExistingMessage\<close> and \<open>del\<close>\<close>

subsection \<open>Lists as collections\<close>

lemma find_update_first:
  "(\<And>x. P (f x) = P x) \<Longrightarrow> find P (update_first P f xs) = map_option f (find P xs)"
  by (induction xs) auto

lemma find_SomeD: "find P xs = Some x \<Longrightarrow> P x \<and> x \<in> set xs"
  by (induction xs) (auto split: if_splits)

lemma find_NoneD: "find P xs = None \<Longrightarrow> x \<in> set xs \<Longrightarrow> \<not> P x"
  by (induction xs) (auto split: if_splits)

lemma users_inc[simp]: "mailboxes (inc_storageUsed u n db) = mailboxes db"
  "messages (inc_storageUsed u n db) = messages db"
  "journal (inc_storageUsed u n db) = journal db"
  by (auto simp: inc_storageUsed_def split: option.splits)




subsection \<open>What a run of \<open>add\<close> that reports \<open>new\<close> or \<open>update\<close> has done\<close>

lemma check_continue:
  assumes "checkExistingMessage fails mailboxData options db = (Continue, db1)"
  shows "db1 = db \<and> find (probe mailboxData (prepared_hdate options) (prepared_msgid options)) (messages db) = None"
proof (cases "find (probe mailboxData (prepared_hdate options) (prepared_msgid options)) (messages db)")
  case None
  with assms show ?thesis
    by (auto simp: checkExistingMessage_def split: if_splits)
next
  case (Some existing)
  then have ex: "probe mailboxData (prepared_hdate options) (prepared_msgid options) existing"
    and mem: "existing \<in> set (messages db)"
    using find_SomeD by fastforce+
  have False
    using assms Some ex mem
    apply (auto simp: checkExistingMessage_def Let_def findOneAndUpdate_mailbox_def
        findOneAndUpdate_message_def
        split: if_splits option.splits prod.splits sum.splits)
    apply (auto dest!: find_SomeD find_NoneD[where x=existing]
        simp: same_key_def probe_def has_id_def)
    done
  then show ?thesis ..
qed


lemma add_new:
  assumes "add K fails options db = (Inr r, db')" and "status r = ''new''"
  shows "\<exists>mailboxData item.
     getMailbox fails GetMailbox options db = Inr mailboxData \<and>
     find (probe mailboxData (prepared_hdate options) (prepared_msgid options)) (messages db) = None \<and>
     find (has_id (mailbox_id mailboxData)) (mailboxes db) = Some item \<and>
     \<not> clashes (final_message K mailboxData item options) (messages db) \<and>
     messages db' = messages db @ [final_message K mailboxData item options] \<and>
     mailboxes db' = update_first (has_id (mailbox_id mailboxData))
                        inc_uidNext_modifyIndex (mailboxes db) \<and>
     journal db' = journal db @ [(mailbox_id item,
                      exists_entry_of (opt_session options) (final_message K mailboxData item options))] \<and>
     res_uid r = uidNext item \<and> res_id r = prepared_id options \<and> res_mailbox r = mailbox_id item"
proof -
  obtain mailboxData where gm: "getMailbox fails GetMailbox options db = Inr mailboxData"
    using assms(1) by (auto simp: add_def split: sum.splits)
  obtain o1 db1 where ce: "checkExistingMessage fails mailboxData options db = (o1, db1)"
    by (cases "checkExistingMessage fails mailboxData options db")
  have o1: "o1 = Continue"
  proof (cases o1)
    case Continue then show ?thesis .
  next
    case (Finished x)
    with assms gm ce have "x = Inr r" by (simp add: add_def)
    with Finished ce assms(2) show ?thesis
      by (auto simp: checkExistingMessage_def Let_def findOneAndUpdate_mailbox_def
        findOneAndUpdate_message_def split: if_splits option.splits sum.splits prod.splits)
  qed
  from check_continue[OF ce[unfolded o1]] have db1: "db1 = db"
    and pr: "find (probe mailboxData (prepared_hdate options) (prepared_msgid options)) (messages db) = None"
    by auto
  show ?thesis
    using assms(1) gm ce o1 db1 pr
    by (auto simp: add_def Let_def rollback_def findOneAndUpdate_mailbox_def insertOne_def
        final_message_def write_frame_def addEntries_def returnOriginal_default_def
        set_mailbox_values_def prepare_messageData_def
        split: if_splits option.splits)
qed





lemma run_delivery:
  "add K0 no_faults delivery store0 =
     (Inr \<lparr>res_uidValidity = Some 1, res_uid = 5, res_id = 100, res_mailbox = 1,
           status = ''new''\<rparr>, store1)"
  by (simp add: add_def getMailbox_def delivery_def store0_def store1_def inbox0_def
      message0_def no_faults_def mailbox_query_def checkExistingMessage_def
      prepare_messageData_def K0_def text_fields_def html_field_def inc_storageUsed_def
      findOneAndUpdate_mailbox_def returnOriginal_default_def inc_uidNext_modifyIndex_def
      set_mailbox_values_def insertOne_def clashes_def is_selected_def addEntries_def
      exists_entry_of_def session_ignore_def has_id_def
      Junk_def Trash_def Deleted_def Seen_def Flagged_def Draft_def)


subsection \<open>Scenario S2: add, then add the same message again\<close>




subsection \<open>The reservation step\<close>

text \<open>
  Claim C2, as the source has it. The reservation in \<open>add\<close> increments \<open>uidNext\<close> and
  \<open>modifyIndex\<close> of the stored record by 1 in one \<open>findOneAndUpdate\<close>, which returns the
  record as it was before the increment (\<open>returnOriginal\<close> is not set, and the sibling
  call in \<open>checkExistingMessage\<close> sets it to true). The new message takes its UID from
  the \<open>uidNext\<close> of that returned record and its modseq from the returned \<open>modifyIndex\<close>
  plus one, which is the \<open>modifyIndex\<close> of the stored record after the increment.
\<close>

theorem reservation_returns_pre_image:
  assumes "add K fails options db = (Inr r, db')" and "status r = ''new''"
  shows "\<exists>item m.
     find (has_id (res_mailbox r)) (mailboxes db) = Some item \<and>
     fst (findOneAndUpdate_mailbox (has_id (res_mailbox r)) inc_uidNext_modifyIndex
            returnOriginal_default db) = Some item \<and>
     find (has_id (res_mailbox r)) (mailboxes db')
       = Some (item\<lparr>uidNext := uidNext item + 1, modifyIndex := modifyIndex item + 1\<rparr>) \<and>
     messages db' = messages db @ [m] \<and> message_id m = res_id r \<and>
     uid m = uidNext item \<and> modseq m = modifyIndex item + 1 \<and> res_uid r = uidNext item"
proof -
  from add_new[OF assms] obtain mailboxData item where
    st: "find (has_id (mailbox_id mailboxData)) (mailboxes db) = Some item"
    and ms: "messages db' = messages db @ [final_message K mailboxData item options]"
    and mbs: "mailboxes db' = update_first (has_id (mailbox_id mailboxData))
                                inc_uidNext_modifyIndex (mailboxes db)"
    and r: "res_uid r = uidNext item" "res_id r = prepared_id options"
           "res_mailbox r = mailbox_id item"
    by blast
  have id: "mailbox_id item = mailbox_id mailboxData"
    using find_SomeD[OF st] by (simp add: has_id_def)
  have pre: "fst (findOneAndUpdate_mailbox (has_id (res_mailbox r)) inc_uidNext_modifyIndex
                   returnOriginal_default db) = Some item"
    using st r id by (simp add: findOneAndUpdate_mailbox_def returnOriginal_default_def)
  have post: "find (has_id (res_mailbox r)) (mailboxes db')
       = Some (item\<lparr>uidNext := uidNext item + 1, modifyIndex := modifyIndex item + 1\<rparr>)"
    unfolding mbs r id using st
    by (subst find_update_first) (simp_all add: inc_uidNext_modifyIndex_def has_id_def)
  have m: "message_id (final_message K mailboxData item options) = res_id r"
    "uid (final_message K mailboxData item options) = uidNext item"
    "modseq (final_message K mailboxData item options) = modifyIndex item + 1"
    using r by (simp_all add: final_message_def set_mailbox_values_def
        prepare_messageData_def Let_def)
  show ?thesis
    using st r id pre post ms m by auto
qed

theorem reservation_returns_pre_image_witness:
  "fst (add K0 no_faults delivery store0) =
     Inr \<lparr>res_uidValidity = Some 1, res_uid = 5, res_id = 100, res_mailbox = 1,
          status = ''new''\<rparr> \<and>
   (\<exists>item. find (has_id 1) (mailboxes store0) = Some item \<and> uidNext item = 5)"
proof -
  have new: "status \<lparr>res_uidValidity = Some 1, res_uid = 5, res_id = 100, res_mailbox = 1,
                     status = ''new''\<rparr> = ''new''"
    by simp
  show ?thesis
    using reservation_returns_pre_image[OF run_delivery new] run_delivery
    by auto
qed

text \<open>
  The claim as written (the step returns the post-image) fails on the record (5, 10): the
  call returns the record with \<open>uidNext = 5\<close> and \<open>modifyIndex = 10\<close>, and stores (6, 11).
\<close>

theorem reservation_not_post_image:
  "fst (findOneAndUpdate_mailbox (has_id 1) inc_uidNext_modifyIndex returnOriginal_default
          store0) = Some inbox0 \<and>
   uidNext inbox0 = 5 \<and> modifyIndex inbox0 = 10 \<and>
   mailboxes (snd (findOneAndUpdate_mailbox (has_id 1) inc_uidNext_modifyIndex
                     returnOriginal_default store0))
     = [inbox0\<lparr>uidNext := 6, modifyIndex := 11\<rparr>] \<and>
   inbox0 \<noteq> inbox0\<lparr>uidNext := 6, modifyIndex := 11\<rparr>"
  by (simp add: findOneAndUpdate_mailbox_def returnOriginal_default_def store0_def
      inbox0_def has_id_def inc_uidNext_modifyIndex_def)

subsection \<open>\<open>del\<close> and the quota\<close>

text \<open>
  Claim C5 says that a successful \<open>del\<close> takes the size of the message off the owner's
  \<open>storageUsed\<close>. The source calls \<open>updateQuota(mailboxData._id, ...)\<close>: the function
  reads the property \<open>user\<close> of its first argument, which an ObjectID does not have, so
  the filter \<open>{_id: undefined}\<close> matches no user. No run of \<open>del\<close> changes any
  \<open>storageUsed\<close>; deleting the stored message of 30 bytes succeeds and leaves the owner's
  counter at 30.
\<close>

theorem del_leaves_storageUsed:
  "users (snd (del fails options db)) = users db \<and>
   del no_faults \<lparr>del_message = message0, del_mailbox = None, del_session = None\<rparr> store1
     = (Inr True,
        store1\<lparr>messages := [],
               journal := [(1, exists_entry_of None message0),
                           (1, expunge_entry None message0)]\<rparr>) \<and>
   mailbox_user inbox0 = 7 \<and> users store1 7 = Some 30 \<and> msg_size message0 = 30"
proof -
  have "users (snd (del fails options db)) = users db"
    by (auto simp: del_def Let_def updateQuota_def inc_storageUsed_def deleteOne_def
        write_frame_def addEntries_def split: sum.splits option.splits)
  moreover have "del no_faults \<lparr>del_message = message0, del_mailbox = None,
                                del_session = None\<rparr> store1
     = (Inr True,
        store1\<lparr>messages := [],
               journal := [(1, exists_entry_of None message0),
                           (1, expunge_entry None message0)]\<rparr>)"
    by (simp add: del_def getMailbox_def store1_def message0_def no_faults_def
        mailbox_query_def inbox0_def deleteOne_def same_key_def updateQuota_def
        inc_storageUsed_def is_selected_def addEntries_def Let_def)
  ultimately show ?thesis
    by (simp add: store1_def inbox0_def message0_def)
qed


section \<open>\<open>move\<close>\<close>

subsection \<open>The loop over the cursor\<close>

lemma store_fields [simp]:
  "mailboxes (write_frame f db) = mailboxes db"
  "messages (write_frame f db) = messages db"
  "journal (write_frame f db) = journal db"
  "mailboxes (addEntries sc es db) = mailboxes db"
  "messages (addEntries sc es db) = messages db"
  "mailboxes (flush_entries a b acc db) = mailboxes db"
  "messages (flush_entries a b acc db) = messages db"
  "mailboxes (deleteOne i mb u db) = mailboxes db"
  "journal (deleteOne i mb u db) = journal db"
  "mailboxes (snd (new_ObjectID db)) = mailboxes db"
  "messages (snd (new_ObjectID db)) = messages db"
  "journal (snd (new_ObjectID db)) = journal db"
  by (simp_all add: write_frame_def addEntries_def flush_entries_def deleteOne_def new_ObjectID_def)


























subsection \<open>Order and pairing of the result of \<open>move\<close>\<close>






section \<open>\<open>update\<close>\<close>

lemma run_update_count:
  "fst (update K0 no_faults 7 1 any_uid [SetDraft True] store1) = Inr 1"
  by code_simp

lemma run_update_messages:
  "messages (snd (update K0 no_faults 7 1 any_uid [SetDraft True] store1))
     = [message0\<lparr>flags := [Draft], flagged := True, modseq := 12\<rparr>]"
  by code_simp

text \<open>
  Claim C6 says that the key \<open>draft\<close> sets the column \<open>draft\<close> and no other boolean
  column. In the source the case \<open>draft\<close> assigns \<open>$set.flagged\<close>: for every message and
  every value \<open>v\<close> of the key, the update leaves \<open>draft\<close> as it was, writes \<open>v\<close> to
  \<open>flagged\<close>, and makes the flag \<open>Draft\<close> present exactly when \<open>v\<close> is true. On the
  stored message (not flagged, no draft) \<open>update\<close> with \<open>{draft: true}\<close> updates one
  message: it now carries the flag, \<open>flagged = true\<close> and still \<open>draft = false\<close>.
\<close>

theorem update_draft_writes_flagged:
  "draft (apply_update (note_changes [SetDraft v]) ms m) = draft m \<and>
   flagged (apply_update (note_changes [SetDraft v]) ms m) = v \<and>
   (Draft \<in> set (flags (apply_update (note_changes [SetDraft v]) ms m))) = v \<and>
   fst (update K0 no_faults 7 1 any_uid [SetDraft True] store1) = Inr 1 \<and>
   messages (snd (update K0 no_faults 7 1 any_uid [SetDraft True] store1))
     = [message0\<lparr>flags := [Draft], flagged := True, modseq := 12\<rparr>] \<and>
   draft message0 = False \<and> flagged message0 = False"
proof -
  have "draft (apply_update (note_changes [SetDraft v]) ms m) = draft m"
    "flagged (apply_update (note_changes [SetDraft v]) ms m) = v"
    by (simp_all add: apply_update_def note_changes_def no_update_def Let_def)
  moreover have "(Draft \<in> set (flags (apply_update (note_changes [SetDraft v]) ms m))) = v"
    by (cases v)
       (simp_all add: apply_update_def note_changes_def no_update_def Let_def
          addToSet_each_def pull_in_def)
  ultimately show ?thesis
    using run_update_count run_update_messages by (simp add: message0_def)
qed


section \<open>\<open>onCopy\<close>\<close>









end
